theory Spec2Isabelle
  imports Main "HOL-Library.AList"
begin

section \<open>The connection manager of the overlay (Connections/ConnectionManager.cpp)\<close>

text \<open>
  The manager is a class with mutable members whose handlers run one after the other on
  one event loop. Each handler is a function from the manager's state to its next state.
  Every call the manager makes on a collaborator that the outside can see (a message
  given to the RPC layer, an edge closed, a signal emitted, a line logged, a signal
  subscribed to, a dial) is appended to \<open>trace\<close>, in program order.
\<close>

subsection \<open>Data\<close>

text \<open>
  Modelled from the spec: Id, an opaque byte string compared by value, and Address, a
  locator of which a listener claims the scheme. An \<open>Edge *\<close> is an address in the
  store of the edges.
\<close>

type_synonym peer_id = string
type_synonym edge_id = nat

datatype address = Address (scheme: string) (location: string)

datatype sink = RpcSink

text \<open>
  Modelled from the spec: Edge, with what the manager reads and changes through an
  \<open>Edge *\<close>: the direction, the remote address, the closed flag and the sink.
\<close>

record edge =
  outbound :: bool
  remote_address :: address
  is_closed :: bool
  sink :: "sink option"

text \<open>
  Modelled from the spec: Connection, its address and the three members fixed by its
  constructor.
\<close>

record connection =
  c_id :: nat
  c_edge :: edge_id
  c_local_id :: peer_id
  c_remote_id :: peer_id

text \<open>
  Modelled from the spec: the payload of an RPC message, a map from strings to values that
  are byte strings (\<open>peer_id\<close>) or strings (\<open>method\<close>).
\<close>

datatype qvariant = QByteArray string | QString string

type_synonym qvariantmap = "string \<Rightarrow> qvariant option"

text \<open>
  \<open>dynamic_cast\<close> of an \<open>ISender *\<close> succeeds exactly when the object has the
  target class, so the sender of a message is a tagged value.
\<close>

datatype sender = SEdge edge_id | SConnection connection | SOther string

record rpc_request =
  rq_from :: sender
  rq_message :: qvariantmap

text \<open>Modelled from the spec: EdgeListener, a transport that claims one address scheme.\<close>

datatype edge_listener = EdgeListener (el_scheme: string)

text \<open>The three signals of the manager.\<close>

datatype event =
    NewConnection connection bool
  | ConnectionAttemptFailure address string
  | Disconnected

datatype log_level = Debug | Warning | Critical

datatype subscription =
    SubNewEdge edge_listener
  | SubEdgeCreationFailure edge_listener
  | SubClosed edge_id
  | SubCalledDisconnect connection
  | SubDisconnected connection

text \<open>The calls on the collaborators that the trace records.\<close>

datatype action =
    RpcRegister string
  | SendRequest qvariantmap sender
  | SendNotification qvariantmap sender
  | Respond rpc_request qvariantmap
  | EdgeClose edge_id string
  | Subscribe subscription
  | Dial edge_listener address
  | FactoryStop
  | Emit event
  | Log log_level string

text \<open>
  Modelled from the spec: ConnectionTable, the edges (a multiset), the map from peer ids to
  connections and the reverse map from edges to connections.
\<close>

record connection_table =
  ct_edges :: "edge_id list"
  ct_id_to_con :: "(peer_id \<times> connection) list"
  ct_edge_to_con :: "(edge_id \<times> connection) list"

text \<open>Modelled from the spec: EdgeFactory, the registered listeners and whether it was stopped.\<close>

record edge_factory =
  ef_listeners :: "edge_listener list"
  ef_stopped :: bool

text \<open>
  The members of the manager. \<open>edges\<close> is the store of the Edge objects the transports
  created, by address; \<open>next_con\<close> is the next free address of a Connection.
\<close>

record manager =
  local_id :: peer_id
  closed :: bool
  con_tab :: connection_table
  rem_con_tab :: connection_table
  edge_factory :: edge_factory
  edges :: "edge_id \<Rightarrow> edge"
  next_con :: nat
  trace :: "action list"

subsection \<open>The connection table\<close>

text \<open>Modelled from the spec: ConnectionTable, a fresh table holds no edge and no connection.\<close>

definition ct_empty :: connection_table where
  "ct_empty = \<lparr>ct_edges = [], ct_id_to_con = [], ct_edge_to_con = []\<rparr>"

text \<open>Modelled from the spec: ConnectionTable::AddEdge, the edges are a multiset.\<close>

definition ct_AddEdge :: "edge_id \<Rightarrow> connection_table \<Rightarrow> connection_table" where
  "ct_AddEdge e t = t\<lparr>ct_edges := ct_edges t @ [e]\<rparr>"

text \<open>Modelled from the spec: ConnectionTable::RemoveEdge, false means the edge was not present.\<close>

definition ct_RemoveEdge :: "edge_id \<Rightarrow> connection_table \<Rightarrow> bool \<times> connection_table" where
  "ct_RemoveEdge e t = (e \<in> set (ct_edges t), t\<lparr>ct_edges := remove1 e (ct_edges t)\<rparr>)"

text \<open>Modelled from the spec: ConnectionTable::GetEdge, the stored edge for a raw pointer, if any.\<close>

definition ct_GetEdge :: "edge_id \<Rightarrow> connection_table \<Rightarrow> edge_id option" where
  "ct_GetEdge e t = (if e \<in> set (ct_edges t) then Some e else None)"

text \<open>Modelled from the spec: ConnectionTable::GetEdges, the sequence of the table's edges.\<close>

definition ct_GetEdges :: "connection_table \<Rightarrow> edge_id list" where
  "ct_GetEdges t = ct_edges t"

text \<open>Modelled from the spec: ConnectionTable::GetConnection, the lookup in the PeerId map.\<close>

definition ct_GetConnection :: "peer_id \<Rightarrow> connection_table \<Rightarrow> connection option" where
  "ct_GetConnection pid t = map_of (ct_id_to_con t) pid"

text \<open>
  Modelled from the spec: ConnectionTable::GetConnections, the connections of the PeerId
  map (those the spec calls Live).
\<close>

definition ct_GetConnections :: "connection_table \<Rightarrow> connection list" where
  "ct_GetConnections t = map snd (ct_id_to_con t)"

text \<open>
  Modelled from the spec: ConnectionTable::AddConnection, the connection is entered in the
  PeerId map under its remote id and in the reverse map under its edge; keys are unique.
\<close>

definition ct_AddConnection :: "connection \<Rightarrow> connection_table \<Rightarrow> connection_table" where
  "ct_AddConnection c t =
     t\<lparr>ct_id_to_con := AList.update (c_remote_id c) c (ct_id_to_con t),
       ct_edge_to_con := AList.update (c_edge c) c (ct_edge_to_con t)\<rparr>"

text \<open>
  Modelled from the spec: ConnectionTable::Disconnect, the connection leaves the PeerId map
  and stays addressable through the edge map; being in the edge map only is the mark
  DisconnectRequested.
\<close>

definition ct_Disconnect :: "connection \<Rightarrow> connection_table \<Rightarrow> connection_table" where
  "ct_Disconnect c t = t\<lparr>ct_id_to_con := filter (\<lambda>kv. snd kv \<noteq> c) (ct_id_to_con t)\<rparr>"

text \<open>Modelled from the spec: ConnectionTable::RemoveConnection, the connection leaves both maps.\<close>

definition ct_RemoveConnection :: "connection \<Rightarrow> connection_table \<Rightarrow> connection_table" where
  "ct_RemoveConnection c t =
     t\<lparr>ct_id_to_con := filter (\<lambda>kv. snd kv \<noteq> c) (ct_id_to_con t),
       ct_edge_to_con := filter (\<lambda>kv. snd kv \<noteq> c) (ct_edge_to_con t)\<rparr>"

text \<open>Modelled from the spec: ConnectionTable::Contains, the table holds the connection in one of its maps.\<close>

definition ct_Contains :: "connection \<Rightarrow> connection_table \<Rightarrow> bool" where
  "ct_Contains c t = (c \<in> set (map snd (ct_id_to_con t) @ map snd (ct_edge_to_con t)))"

subsection \<open>The collaborators' calls\<close>

definition act :: "action \<Rightarrow> manager \<Rightarrow> manager" where
  "act a s = s\<lparr>trace := trace s @ [a]\<rparr>"

text \<open>The logged line is the literal text of the source; the objects printed after it are left out.\<close>

definition qDebug :: "string \<Rightarrow> manager \<Rightarrow> manager" where
  "qDebug msg = act (Log Debug msg)"

definition qWarning :: "string \<Rightarrow> manager \<Rightarrow> manager" where
  "qWarning msg = act (Log Warning msg)"

definition qCritical :: "string \<Rightarrow> manager \<Rightarrow> manager" where
  "qCritical msg = act (Log Critical msg)"

definition emit :: "event \<Rightarrow> manager \<Rightarrow> manager" where
  "emit ev = act (Emit ev)"

definition rpc_SendRequest :: "qvariantmap \<Rightarrow> sender \<Rightarrow> manager \<Rightarrow> manager" where
  "rpc_SendRequest m to = act (SendRequest m to)"

definition rpc_SendNotification :: "qvariantmap \<Rightarrow> sender \<Rightarrow> manager \<Rightarrow> manager" where
  "rpc_SendNotification m to = act (SendNotification m to)"

text \<open>
  Modelled from the spec: QVariant::toByteArray on the value found under a key; a missing
  key gives the empty byte array, a string is converted to its bytes.
\<close>

definition toByteArray :: "qvariant option \<Rightarrow> string" where
  "toByteArray v = (case v of None \<Rightarrow> [] | Some (QByteArray b) \<Rightarrow> b | Some (QString t) \<Rightarrow> t)"

text \<open>Modelled from the spec: Edge::SetSink, the sink slot of the edge is set.\<close>

definition edge_SetSink :: "edge_id \<Rightarrow> manager \<Rightarrow> manager" where
  "edge_SetSink e s = s\<lparr>edges := (edges s)(e := (edges s e)\<lparr>sink := Some RpcSink\<rparr>)\<rparr>"

text \<open>
  Modelled from the spec: Edge::Close, the edge's closed flag goes to true; its Closed event
  is delivered to the manager later, as an event of its own.
\<close>

definition edge_Close :: "edge_id \<Rightarrow> string \<Rightarrow> manager \<Rightarrow> manager" where
  "edge_Close e reason s =
     act (EdgeClose e reason) (s\<lparr>edges := (edges s)(e := (edges s e)\<lparr>is_closed := True\<rparr>)\<rparr>)"

text \<open>Modelled from the spec: EdgeFactory::AddEdgeListener, the listener is registered.\<close>

definition ef_AddEdgeListener :: "edge_listener \<Rightarrow> manager \<Rightarrow> manager" where
  "ef_AddEdgeListener el s =
     s\<lparr>edge_factory := (edge_factory s)\<lparr>ef_listeners := ef_listeners (edge_factory s) @ [el]\<rparr>\<rparr>"

text \<open>
  Modelled from the spec: EdgeFactory::CreateEdgeTo, true when a registered listener claims
  the scheme of the address, and that listener is asked to dial.
\<close>

definition ef_CreateEdgeTo :: "address \<Rightarrow> manager \<Rightarrow> bool \<times> manager" where
  "ef_CreateEdgeTo addr s =
     (case find (\<lambda>el. el_scheme el = scheme addr) (ef_listeners (edge_factory s)) of
        None \<Rightarrow> (False, s)
      | Some el \<Rightarrow> (True, act (Dial el addr) s))"

text \<open>Modelled from the spec: EdgeFactory::Stop, idempotent, the listeners cease to produce edges.\<close>

definition ef_Stop :: "manager \<Rightarrow> manager" where
  "ef_Stop s = act FactoryStop (s\<lparr>edge_factory := (edge_factory s)\<lparr>ef_stopped := True\<rparr>\<rparr>)"

subsection \<open>The manager's handlers\<close>

definition ConnectionManager :: "peer_id \<Rightarrow> (edge_id \<Rightarrow> edge) \<Rightarrow> manager" where
  "ConnectionManager lid heap =
     \<lparr>local_id = lid, closed = False, con_tab = ct_empty, rem_con_tab = ct_empty,
      edge_factory = \<lparr>ef_listeners = [], ef_stopped = False\<rparr>,
      edges = heap, next_con = 0,
      trace = [RpcRegister ''CM::Inquire'', RpcRegister ''CM::Close'',
               RpcRegister ''CM::Connect'', RpcRegister ''CM::Disconnect'']\<rparr>"

definition AddEdgeListener :: "edge_listener \<Rightarrow> manager \<Rightarrow> manager" where
  "AddEdgeListener el s =
     (if closed s
      then qWarning ''Attempting to add an EdgeListener after calling Disconnect.'' s
      else act (Subscribe (SubEdgeCreationFailure el))
             (act (Subscribe (SubNewEdge el)) (ef_AddEdgeListener el s)))"

definition ConnectTo :: "address \<Rightarrow> manager \<Rightarrow> manager" where
  "ConnectTo addr s =
     (if closed s
      then qWarning ''Attempting to Connect to a remote node after calling Disconnect.'' s
      else (case ef_CreateEdgeTo addr s of
              (True, s1) \<Rightarrow> s1
            | (False, s1) \<Rightarrow>
                emit (ConnectionAttemptFailure addr ''No EdgeListener to handle request'') s1))"

definition HandleDisconnect :: "connection \<Rightarrow> manager \<Rightarrow> manager" where
  "HandleDisconnect con s =
     (let s1 = (if ct_Contains con (con_tab s)
                then s\<lparr>con_tab := ct_Disconnect con (con_tab s)\<rparr>
                else s\<lparr>rem_con_tab := ct_Disconnect con (rem_con_tab s)\<rparr>);
          s2 = rpc_SendNotification [''method'' \<mapsto> QString ''CM::Disconnect''] (SConnection con) s1;
          s3 = qDebug ''Handle disconnect on: '' s2
      in edge_Close (c_edge con) ''Local disconnect request'' s3)"

text \<open>
  Modelled from the spec: Connection::Disconnect, which raises CalledDisconnect; the manager
  subscribed HandleDisconnect to it when it created the connection, and the slot runs at once.
\<close>

definition con_Disconnect :: "connection \<Rightarrow> manager \<Rightarrow> manager" where
  "con_Disconnect con s = HandleDisconnect con s"

definition close_if_open :: "edge_id \<Rightarrow> manager \<Rightarrow> manager" where
  "close_if_open e s = (if \<not> is_closed (edges s e) then edge_Close e ''Disconnecting'' s else s)"

definition Disconnect :: "manager \<Rightarrow> manager" where
  "Disconnect s =
     (if closed s
      then qWarning ''Called Disconnect twice on ConnectionManager.'' s
      else
        (let s1 = s\<lparr>closed := True\<rparr>;
             emit_dis = (length (ct_GetEdges (con_tab s1)) = 0
                         \<and> length (ct_GetEdges (rem_con_tab s1)) = 0);
             s2 = fold con_Disconnect (ct_GetConnections (con_tab s1)) s1;
             s3 = fold con_Disconnect (ct_GetConnections (rem_con_tab s2)) s2;
             s4 = fold close_if_open (ct_GetEdges (con_tab s3)) s3;
             s5 = fold close_if_open (ct_GetEdges (rem_con_tab s4)) s4;
             s6 = ef_Stop s5
         in if emit_dis then emit Disconnected s6 else s6))"

definition HandleNewEdge :: "edge_id \<Rightarrow> manager \<Rightarrow> manager" where
  "HandleNewEdge e s =
     (let s1 = edge_SetSink e s;
          s2 = act (Subscribe (SubClosed e)) s1
      in if \<not> outbound (edges s2 e)
         then s2\<lparr>rem_con_tab := ct_AddEdge e (rem_con_tab s2)\<rparr>
         else
           (let s3 = s2\<lparr>con_tab := ct_AddEdge e (con_tab s2)\<rparr>
            in rpc_SendRequest
                 [''method'' \<mapsto> QString ''CM::Inquire'', ''peer_id'' \<mapsto> QByteArray (local_id s3)]
                 (SEdge e) s3))"

definition HandleEdgeCreationFailure :: "address \<Rightarrow> string \<Rightarrow> manager \<Rightarrow> manager" where
  "HandleEdgeCreationFailure to reason s = emit (ConnectionAttemptFailure to reason) s"

definition Inquire :: "rpc_request \<Rightarrow> manager \<Rightarrow> manager" where
  "Inquire request s = act (Respond request [''peer_id'' \<mapsto> QByteArray (local_id s)]) s"

text \<open>
  The \<open>new Connection(pedge, _local_id, rem_id)\<close> of the handlers: the object gets a fresh
  address and the three members.
\<close>

definition new_Connection :: "edge_id \<Rightarrow> peer_id \<Rightarrow> manager \<Rightarrow> connection \<times> manager" where
  "new_Connection pedge rem_id s =
     (\<lparr>c_id = next_con s, c_edge = pedge, c_local_id = local_id s, c_remote_id = rem_id\<rparr>,
      s\<lparr>next_con := Suc (next_con s)\<rparr>)"

text \<open>
  A signal is delivered to the slots connected to it when it is emitted, before the handler
  goes on, so the slots see the manager as it is at the \<open>emit\<close> statement.
  \<open>Inquired_with\<close> is the handler with the delivery of its signals as the parameter
  \<open>emit_signal\<close>; \<open>Inquired\<close> is the handler whose delivery records the signal in
  the trace.
\<close>

definition Inquired_with ::
  "(event \<Rightarrow> manager \<Rightarrow> manager) \<Rightarrow> rpc_request \<Rightarrow> manager \<Rightarrow> manager" where
  "Inquired_with emit_signal response s =
     (case rq_from response of
        SEdge e \<Rightarrow>
          if \<not> outbound (edges s e)
          then qWarning ''We would never make an inquire call on an incoming edge: '' s
          else
            (let brem_id = toByteArray (rq_message response ''peer_id'')
             in if brem_id = []
                then qWarning ''Invalid ConnectionEstablished, no id'' s
                else if brem_id = local_id s
                then
                  (let s1 = qDebug ''Attempting to connect to ourself'' s;
                       s2 = rpc_SendNotification [''method'' \<mapsto> QString ''CM::Close''] (SEdge e) s1;
                       s3 = edge_Close e ''Attempting to connect to ourself'' s2
                   in emit_signal (ConnectionAttemptFailure (remote_address (edges s3 e))
                                     ''Attempting to connect to ourself'') s3)
                else if ct_GetConnection brem_id (con_tab s) \<noteq> None
                then
                  (let s1 = qWarning ''Already have a connection to: '' s;
                       s2 = rpc_SendNotification [''method'' \<mapsto> QString ''CM::Close''] (SEdge e) s1;
                       s3 = edge_Close e ''Duplicate connection'' s2
                   in emit_signal (ConnectionAttemptFailure (remote_address (edges s3 e))
                                     ''Duplicate connection'') s3)
                else
                  (case ct_GetEdge e (con_tab s) of
                     None \<Rightarrow>
                       qCritical ''An edge attempted to create a connection, but there is no record of it'' s
                   | Some pedge \<Rightarrow>
                       (let s1 = rpc_SendNotification
                                   [''method'' \<mapsto> QString ''CM::Connect'',
                                    ''peer_id'' \<mapsto> QByteArray (local_id s)] (SEdge e) s;
                            s2 = qDebug '': Creating new connection to '' s1;
                            (con, s3) = new_Connection pedge brem_id s2;
                            s4 = s3\<lparr>con_tab := ct_AddConnection con (con_tab s3)\<rparr>;
                            s5 = act (Subscribe (SubCalledDisconnect con)) s4;
                            s6 = act (Subscribe (SubDisconnected con)) s5
                        in emit_signal (NewConnection con True) s6)))
      | _ \<Rightarrow> qWarning ''Received an inquired from a non-Edge: '' s)"

definition Inquired :: "rpc_request \<Rightarrow> manager \<Rightarrow> manager" where
  "Inquired response s = Inquired_with emit response s"

definition Connect :: "rpc_request \<Rightarrow> manager \<Rightarrow> manager" where
  "Connect notification s =
     (case rq_from notification of
        SEdge e \<Rightarrow>
          (let brem_id = toByteArray (rq_message notification ''peer_id'')
           in if brem_id = []
              then qWarning ''Invalid ConnectionEstablished, no id'' s
              else
                (let s1 = (case ct_GetConnection brem_id (rem_con_tab s) of
                             None \<Rightarrow> s
                           | Some old_con \<Rightarrow> con_Disconnect old_con s)
                 in case ct_GetEdge e (rem_con_tab s1) of
                      None \<Rightarrow>
                        qCritical ''An edge attempted to create a connection, but there is no record of it'' s1
                    | Some pedge \<Rightarrow>
                        (let (con, s2) = new_Connection pedge brem_id s1;
                             s3 = s2\<lparr>rem_con_tab := ct_AddConnection con (rem_con_tab s2)\<rparr>;
                             s4 = qDebug '': Handle new connection from '' s3;
                             s5 = act (Subscribe (SubCalledDisconnect con)) s4;
                             s6 = act (Subscribe (SubDisconnected con)) s5
                         in emit (NewConnection con False) s6)))
      | _ \<Rightarrow> qWarning ''Connection attempt not from an Edge: '' s)"

definition Close :: "rpc_request \<Rightarrow> manager \<Rightarrow> manager" where
  "Close notification s =
     (case rq_from notification of
        SEdge e \<Rightarrow> edge_Close e ''Closed from remote peer'' s
      | _ \<Rightarrow> qWarning ''Connection attempt Edge close not from an Edge: '' s)"

definition HandleDisconnected :: "connection \<Rightarrow> string \<Rightarrow> manager \<Rightarrow> manager" where
  "HandleDisconnected con reason s =
     (let s1 = qDebug ''Edge disconnected now removing Connection: '' s
      in if outbound (edges s1 (c_edge con))
         then s1\<lparr>con_tab := ct_RemoveConnection con (con_tab s1)\<rparr>
         else s1\<lparr>rem_con_tab := ct_RemoveConnection con (rem_con_tab s1)\<rparr>)"

definition Disconnect_RpcRequest :: "rpc_request \<Rightarrow> manager \<Rightarrow> manager" where
  "Disconnect_RpcRequest notification s =
     (case rq_from notification of
        SConnection con \<Rightarrow>
          (let s1 = qDebug ''Received disconnect for: '' s;
               s2 = (if ct_Contains con (rem_con_tab s1)
                     then s1\<lparr>rem_con_tab := ct_Disconnect con (rem_con_tab s1)\<rparr>
                     else s1\<lparr>con_tab := ct_Disconnect con (con_tab s1)\<rparr>)
           in edge_Close (c_edge con) ''Remote disconnect'' s2)
      | _ \<Rightarrow> qWarning ''Received DisconnectResponse from a non-connection: '' s)"

definition HandleEdgeClose :: "edge_id \<Rightarrow> string \<Rightarrow> manager \<Rightarrow> manager" where
  "HandleEdgeClose e reason s =
     (let s1 = qDebug ''Edge closed: '' s;
          out = outbound (edges s1 e);
          (found, tab) = ct_RemoveEdge e (if out then con_tab s1 else rem_con_tab s1);
          s2 = (if out then s1\<lparr>con_tab := tab\<rparr> else s1\<lparr>rem_con_tab := tab\<rparr>);
          s3 = (if \<not> found then qWarning ''Edge closed but no Edge found in CT:'' s2 else s2)
      in if \<not> closed s3 then s3
         else if length (ct_GetEdges (con_tab s3)) = 0 \<and> length (ct_GetEdges (rem_con_tab s3)) = 0
         then emit Disconnected s3
         else s3)"

subsection \<open>The event loop\<close>

text \<open>The events the event loop hands to the manager: calls of its public methods, signals of
  listeners, edges and connections, and RPC messages.\<close>

datatype input =
    Call_AddEdgeListener edge_listener
  | Call_ConnectTo address
  | Call_Disconnect
  | Sig_NewEdge edge_id
  | Sig_EdgeCreationFailure address string
  | Sig_Closed edge_id string
  | Rpc_Inquire rpc_request
  | Rpc_Inquired rpc_request
  | Rpc_Connect rpc_request
  | Rpc_Close rpc_request
  | Rpc_Disconnect rpc_request
  | Sig_CalledDisconnect connection
  | Sig_Disconnected connection string

fun deliver :: "input \<Rightarrow> manager \<Rightarrow> manager" where
  "deliver (Call_AddEdgeListener el) s = AddEdgeListener el s"
| "deliver (Call_ConnectTo addr) s = ConnectTo addr s"
| "deliver Call_Disconnect s = Disconnect s"
| "deliver (Sig_NewEdge e) s = HandleNewEdge e s"
| "deliver (Sig_EdgeCreationFailure to reason) s = HandleEdgeCreationFailure to reason s"
| "deliver (Sig_Closed e reason) s = HandleEdgeClose e reason s"
| "deliver (Rpc_Inquire r) s = Inquire r s"
| "deliver (Rpc_Inquired r) s = Inquired r s"
| "deliver (Rpc_Connect r) s = Connect r s"
| "deliver (Rpc_Close r) s = Close r s"
| "deliver (Rpc_Disconnect r) s = Disconnect_RpcRequest r s"
| "deliver (Sig_CalledDisconnect con) s = HandleDisconnect con s"
| "deliver (Sig_Disconnected con reason) s = HandleDisconnected con reason s"

text \<open>The handlers run one after the other, each on the state the one before left.\<close>

definition run :: "input list \<Rightarrow> manager \<Rightarrow> manager" where
  "run evs s = fold deliver evs s"

text \<open>
  Modelled from the spec: what the transports may deliver. An edge is handed to the manager
  once, and not after Disconnect() stopped the factory (stop() makes the listeners cease to
  produce edges); an edge reports Closed once, after it was handed over. \<open>seen\<close> are the
  edges handed over so far, \<open>live\<close> those of them that have not reported Closed.
\<close>

fun admissible :: "edge_id list \<Rightarrow> edge_id list \<Rightarrow> bool \<Rightarrow> input list \<Rightarrow> bool" where
  "admissible seen live stopped [] = True"
| "admissible seen live stopped (Sig_NewEdge e # evs) =
     (\<not> stopped \<and> e \<notin> set seen \<and> admissible (e # seen) (e # live) stopped evs)"
| "admissible seen live stopped (Sig_Closed e reason # evs) =
     (e \<in> set live \<and> admissible seen (removeAll e live) stopped evs)"
| "admissible seen live stopped (Call_Disconnect # evs) = admissible seen live True evs"
| "admissible seen live stopped (ev # evs) = admissible seen live stopped evs"

subsection \<open>Traces and invariants of the proofs\<close>






subsection \<open>The scenarios of the specification\<close>

text \<open>Node A with a listener for \<open>mem://\<close>; the edges 1 and 2 are outbound, the edge 3 is inbound.\<close>

definition heap0 :: "edge_id \<Rightarrow> edge" where
  "heap0 i = \<lparr>outbound = (i \<noteq> 3), remote_address = Address ''mem://'' ''B'',
              is_closed = False, sink = None\<rparr>"

definition node_A :: manager where
  "node_A = AddEdgeListener (EdgeListener ''mem://'') (ConnectionManager ''A'' heap0)"

text \<open>A message that carries a peer id over an edge.\<close>

definition peer_msg :: "edge_id \<Rightarrow> string \<Rightarrow> rpc_request" where
  "peer_msg e pid = \<lparr>rq_from = SEdge e, rq_message = [''peer_id'' \<mapsto> QByteArray pid]\<rparr>"

text \<open>S1 after the transport produced the edge 1 and CM::Inquire was sent.\<close>

definition dialed_A :: manager where
  "dialed_A = HandleNewEdge 1 (ConnectTo (Address ''mem://'' ''B'') node_A)"

text \<open>S1 completed: the connection to B over the edge 1.\<close>

definition connected_A :: manager where
  "connected_A = Inquired (peer_msg 1 ''B'') dialed_A"

definition con_B :: connection where
  "con_B = \<lparr>c_id = 0, c_edge = 1, c_local_id = ''A'', c_remote_id = ''B''\<rparr>"

text \<open>S4 completed: the connection from C over the edge 3.\<close>

definition inbound_A :: manager where
  "inbound_A = Connect (peer_msg 3 ''C'') (HandleNewEdge 3 node_A)"

definition con_C :: connection where
  "con_C = \<lparr>c_id = 0, c_edge = 3, c_local_id = ''A'', c_remote_id = ''C''\<rparr>"

text \<open>A shutdown that began while the edges 1 and 3 were still in their handshakes.\<close>

definition closing_A :: manager where
  "closing_A = Disconnect (HandleNewEdge 3 dialed_A)"



text \<open>
  A slot of NewConnection that looks a peer up in OutTable when the signal reaches it, and
  logs what it found.
\<close>

definition slot_lookup :: "peer_id \<Rightarrow> event \<Rightarrow> manager \<Rightarrow> manager" where
  "slot_lookup pid ev s =
     act (Log Debug (if ct_GetConnection pid (con_tab s) = None then ''absent'' else ''present''))
       (emit ev s)"



section \<open>Properties\<close>

subsection \<open>Unfolding rules\<close>

lemmas prim_defs = act_def qDebug_def qWarning_def qCritical_def emit_def rpc_SendRequest_def
  rpc_SendNotification_def edge_SetSink_def edge_Close_def ef_AddEdgeListener_def ef_Stop_def

lemmas table_defs = ct_empty_def ct_AddEdge_def ct_RemoveEdge_def ct_GetEdge_def ct_GetEdges_def
  ct_GetConnection_def ct_GetConnections_def ct_AddConnection_def ct_Disconnect_def
  ct_RemoveConnection_def ct_Contains_def

lemmas scenario_defs = heap0_def node_A_def dialed_A_def peer_msg_def ConnectionManager_def
  AddEdgeListener_def ConnectTo_def HandleNewEdge_def ef_CreateEdgeTo_def toByteArray_def

lemmas scenario2_defs = connected_A_def inbound_A_def con_B_def con_C_def Inquired_def Inquired_with_def Connect_def
  new_Connection_def con_Disconnect_def HandleDisconnect_def

lemmas all_defs = scenario_defs scenario2_defs prim_defs table_defs Let_def

subsection \<open>Lemmas on the handlers\<close>

lemma Inquired_with_success:
  assumes "rq_from response = SEdge e"
      and "outbound (edges s e)"
      and "e \<in> set (ct_GetEdges (con_tab s))"
      and "toByteArray (rq_message response ''peer_id'') = rem_id"
      and "rem_id \<noteq> []"
      and "rem_id \<noteq> local_id s"
      and "ct_GetConnection rem_id (con_tab s) = None"
      and "con = \<lparr>c_id = next_con s, c_edge = e, c_local_id = local_id s, c_remote_id = rem_id\<rparr>"
  shows "Inquired_with emit_signal response s =
           emit_signal (NewConnection con True)
             (s\<lparr>next_con := Suc (next_con s),
                con_tab := ct_AddConnection con (con_tab s),
                trace := trace s @
                  [SendNotification [''method'' \<mapsto> QString ''CM::Connect'',
                                     ''peer_id'' \<mapsto> QByteArray (local_id s)] (SEdge e),
                   Log Debug '': Creating new connection to '',
                   Subscribe (SubCalledDisconnect con), Subscribe (SubDisconnected con)]\<rparr>)"
  using assms
  by (simp add: Inquired_with_def prim_defs Let_def ct_GetEdge_def ct_GetEdges_def new_Connection_def)

lemma Inquired_success:
  assumes "rq_from response = SEdge e"
      and "outbound (edges s e)"
      and "e \<in> set (ct_GetEdges (con_tab s))"
      and "toByteArray (rq_message response ''peer_id'') = rem_id"
      and "rem_id \<noteq> []"
      and "rem_id \<noteq> local_id s"
      and "ct_GetConnection rem_id (con_tab s) = None"
      and "con = \<lparr>c_id = next_con s, c_edge = e, c_local_id = local_id s, c_remote_id = rem_id\<rparr>"
  shows "Inquired response s =
           emit (NewConnection con True)
             (s\<lparr>next_con := Suc (next_con s),
                con_tab := ct_AddConnection con (con_tab s),
                trace := trace s @
                  [SendNotification [''method'' \<mapsto> QString ''CM::Connect'',
                                     ''peer_id'' \<mapsto> QByteArray (local_id s)] (SEdge e),
                   Log Debug '': Creating new connection to '',
                   Subscribe (SubCalledDisconnect con), Subscribe (SubDisconnected con)]\<rparr>)"
  using assms
  by (simp add: Inquired_def Inquired_with_def prim_defs Let_def ct_GetEdge_def ct_GetEdges_def new_Connection_def)

lemma ct_AddConnection_lookup:
  "ct_GetConnection (c_remote_id c) (ct_AddConnection c t) = Some c"
  "ct_Contains c (ct_AddConnection c t)"
  by (auto simp: ct_GetConnection_def ct_AddConnection_def ct_Contains_def update_conv
      intro: rev_image_eqI map_of_SomeD[of _ "c_remote_id c" c, THEN rev_image_eqI])

lemma HandleDisconnect_trace:
  "trace (HandleDisconnect c s) = trace s @
     [SendNotification [''method'' \<mapsto> QString ''CM::Disconnect''] (SConnection c),
      Log Debug ''Handle disconnect on: '',
      EdgeClose (c_edge c) ''Local disconnect request'']"
  by (simp add: HandleDisconnect_def prim_defs Let_def)

lemma HandleDisconnect_frame:
  "ct_edges (con_tab (HandleDisconnect c s)) = ct_edges (con_tab s)"
  "ct_edges (rem_con_tab (HandleDisconnect c s)) = ct_edges (rem_con_tab s)"
  "closed (HandleDisconnect c s) = closed s"
  "local_id (HandleDisconnect c s) = local_id s"
  "next_con (HandleDisconnect c s) = next_con s"
  "edge_factory (HandleDisconnect c s) = edge_factory s"
  "outbound (edges (HandleDisconnect c s) e) = outbound (edges s e)"
  by (simp_all add: HandleDisconnect_def prim_defs Let_def ct_Disconnect_def)

lemma Connect_success:
  assumes "rq_from n = SEdge e"
      and "e \<in> set (ct_GetEdges (rem_con_tab s))"
      and "toByteArray (rq_message n ''peer_id'') = rem_id"
      and "rem_id \<noteq> []"
      and "s1 = (case ct_GetConnection rem_id (rem_con_tab s) of
                   None \<Rightarrow> s | Some old_con \<Rightarrow> con_Disconnect old_con s)"
      and "con = \<lparr>c_id = next_con s, c_edge = e, c_local_id = local_id s, c_remote_id = rem_id\<rparr>"
  shows "Connect n s =
           emit (NewConnection con False)
             (s1\<lparr>next_con := Suc (next_con s1),
                 rem_con_tab := ct_AddConnection con (rem_con_tab s1),
                 trace := trace s1 @
                   [Log Debug '': Handle new connection from '',
                    Subscribe (SubCalledDisconnect con), Subscribe (SubDisconnected con)]\<rparr>)"
proof -
  have fr: "ct_edges (rem_con_tab s1) = ct_edges (rem_con_tab s)"
    "next_con s1 = next_con s" "local_id s1 = local_id s"
    by (simp_all add: assms(5) con_Disconnect_def HandleDisconnect_frame split: option.splits)
  then have ge: "ct_GetEdge e (rem_con_tab s1) = Some e"
    using assms(2) by (simp add: ct_GetEdge_def ct_GetEdges_def)
  show ?thesis
    using assms(1,3,4) ge fr
    by (simp add: Connect_def Let_def new_Connection_def prim_defs assms(5)[symmetric] assms(6))
qed

subsection \<open>Outbound handshake\<close>

text \<open>
  C1. An Inquired response over an outbound edge that OutTable holds, with a non-empty peer
  id that is not the local id and for which OutTable has no connection: the manager sends
  CM::Connect with its own id over the edge, creates the connection with the remote id,
  adds it to OutTable and emits NewConnection(con, true). The emission is the handler's
  last step and comes after the insertion: whatever the delivery of the signal does, it
  is applied to the state \<open>s6\<close>, whose OutTable already holds the connection.
\<close>

theorem Inquired_promotes:
  assumes "rq_from response = SEdge e"
      and "outbound (edges s e)"
      and "e \<in> set (ct_GetEdges (con_tab s))"
      and "toByteArray (rq_message response ''peer_id'') = rem_id"
      and "rem_id \<noteq> []"
      and "rem_id \<noteq> local_id s"
      and "ct_GetConnection rem_id (con_tab s) = None"
  shows "\<exists>con s6.
           con = \<lparr>c_id = next_con s, c_edge = e, c_local_id = local_id s, c_remote_id = rem_id\<rparr> \<and>
           (\<forall>emit_signal. Inquired_with emit_signal response s = emit_signal (NewConnection con True) s6) \<and>
           Inquired response s = emit (NewConnection con True) s6 \<and>
           trace s6 = trace s @
             [SendNotification [''method'' \<mapsto> QString ''CM::Connect'',
                                ''peer_id'' \<mapsto> QByteArray (local_id s)] (SEdge e),
              Log Debug '': Creating new connection to '',
              Subscribe (SubCalledDisconnect con), Subscribe (SubDisconnected con)] \<and>
           con_tab s6 = ct_AddConnection con (con_tab s) \<and>
           ct_GetConnection rem_id (con_tab s6) = Some con \<and>
           ct_Contains con (con_tab s6) \<and>
           con_tab (Inquired response s) = con_tab s6 \<and>
           trace (Inquired response s) = trace s6 @ [Emit (NewConnection con True)]"
proof -
  define con where
    "con = \<lparr>c_id = next_con s, c_edge = e, c_local_id = local_id s, c_remote_id = rem_id\<rparr>"
  define s6 where
    "s6 = s\<lparr>next_con := Suc (next_con s),
             con_tab := ct_AddConnection con (con_tab s),
             trace := trace s @
               [SendNotification [''method'' \<mapsto> QString ''CM::Connect'',
                                  ''peer_id'' \<mapsto> QByteArray (local_id s)] (SEdge e),
                Log Debug '': Creating new connection to '',
                Subscribe (SubCalledDisconnect con), Subscribe (SubDisconnected con)]\<rparr>"
  have rid: "c_remote_id con = rem_id"
    by (simp add: con_def)
  have gen: "\<forall>emit_signal. Inquired_with emit_signal response s = emit_signal (NewConnection con True) s6"
    unfolding s6_def using Inquired_with_success [OF assms con_def] by blast
  then have run: "Inquired response s = emit (NewConnection con True) s6"
    by (simp add: Inquired_def)
  have tab: "con_tab s6 = ct_AddConnection con (con_tab s)"
    by (simp add: s6_def)
  have "ct_GetConnection rem_id (con_tab s6) = Some con" "ct_Contains con (con_tab s6)"
    using ct_AddConnection_lookup [of con "con_tab s"] by (simp_all add: tab rid)
  moreover have "trace s6 = trace s @
      [SendNotification [''method'' \<mapsto> QString ''CM::Connect'',
                         ''peer_id'' \<mapsto> QByteArray (local_id s)] (SEdge e),
       Log Debug '': Creating new connection to '',
       Subscribe (SubCalledDisconnect con), Subscribe (SubDisconnected con)]"
    by (simp add: s6_def)
  moreover have "con_tab (Inquired response s) = con_tab s6"
    "trace (Inquired response s) = trace s6 @ [Emit (NewConnection con True)]"
    by (simp_all add: run emit_def act_def)
  ultimately show ?thesis
    using gen run tab con_def by blast
qed

theorem Inquired_promotes_witness:
  "rq_from (peer_msg 1 ''B'') = SEdge 1 \<and> outbound (edges dialed_A 1) \<and>
   1 \<in> set (ct_GetEdges (con_tab dialed_A)) \<and>
   toByteArray (rq_message (peer_msg 1 ''B'') ''peer_id'') = ''B'' \<and>
   ''B'' \<noteq> local_id dialed_A \<and> ct_GetConnection ''B'' (con_tab dialed_A) = None \<and>
   ct_GetConnection ''B'' (con_tab (Inquired (peer_msg 1 ''B'') dialed_A)) = Some con_B \<and>
   trace (Inquired (peer_msg 1 ''B'') dialed_A) = trace dialed_A @
     [SendNotification [''method'' \<mapsto> QString ''CM::Connect'', ''peer_id'' \<mapsto> QByteArray ''A'']
        (SEdge 1),
      Log Debug '': Creating new connection to '',
      Subscribe (SubCalledDisconnect con_B), Subscribe (SubDisconnected con_B),
      Emit (NewConnection con_B True)] \<and>
   trace (Inquired_with (slot_lookup ''B'') (peer_msg 1 ''B'') dialed_A) = trace dialed_A @
     [SendNotification [''method'' \<mapsto> QString ''CM::Connect'', ''peer_id'' \<mapsto> QByteArray ''A'']
        (SEdge 1),
      Log Debug '': Creating new connection to '',
      Subscribe (SubCalledDisconnect con_B), Subscribe (SubDisconnected con_B),
      Emit (NewConnection con_B True), Log Debug ''present'']"
proof -
  have h: "rq_from (peer_msg 1 ''B'') = SEdge 1" "outbound (edges dialed_A 1)"
    "1 \<in> set (ct_GetEdges (con_tab dialed_A))"
    "toByteArray (rq_message (peer_msg 1 ''B'') ''peer_id'') = ''B''"
    "''B'' \<noteq> []" "''B'' \<noteq> local_id dialed_A" "ct_GetConnection ''B'' (con_tab dialed_A) = None"
    by (simp_all add: all_defs)
  have v: "next_con dialed_A = 0" "local_id dialed_A = ''A''"
    by (simp_all add: all_defs)
  from Inquired_promotes [OF h] obtain con s6 where
    c: "con = \<lparr>c_id = next_con dialed_A, c_edge = 1, c_local_id = local_id dialed_A,
                c_remote_id = ''B''\<rparr>"
    and g: "\<forall>emit_signal. Inquired_with emit_signal (peer_msg 1 ''B'') dialed_A =
              emit_signal (NewConnection con True) s6"
    and t6: "trace s6 = trace dialed_A @
       [SendNotification [''method'' \<mapsto> QString ''CM::Connect'',
                          ''peer_id'' \<mapsto> QByteArray (local_id dialed_A)] (SEdge 1),
        Log Debug '': Creating new connection to '',
        Subscribe (SubCalledDisconnect con), Subscribe (SubDisconnected con)]"
    and l6: "ct_GetConnection ''B'' (con_tab s6) = Some con"
    and ct: "con_tab (Inquired (peer_msg 1 ''B'') dialed_A) = con_tab s6"
    and tr: "trace (Inquired (peer_msg 1 ''B'') dialed_A) = trace s6 @ [Emit (NewConnection con True)]"
    by blast
  have cb: "con = con_B"
    using c by (simp add: v con_B_def)
  have "trace (Inquired_with (slot_lookup ''B'') (peer_msg 1 ''B'') dialed_A) =
      trace s6 @ [Emit (NewConnection con_B True), Log Debug ''present'']"
    using g l6 by (simp add: slot_lookup_def emit_def act_def cb)
  then show ?thesis
    using h t6 l6 ct tr by (simp add: cb v)
qed

text \<open>
  C2. An Inquired response over an outbound edge with the local id: CM::Close is sent, the
  edge is closed and ConnectionAttemptFailure is emitted, both with the reason
  "Attempting to connect to ourself". With a remote id that OutTable already has: the same
  with the reason "Duplicate connection". In both branches nothing changes but the edge's
  closed flag and the trace: no connection is created, none is announced, and the
  connection OutTable had stays unchanged.
\<close>

theorem Inquired_rejects:
  assumes "rq_from response = SEdge e"
      and "outbound (edges s e)"
      and "toByteArray (rq_message response ''peer_id'') = rem_id"
      and "rem_id \<noteq> []"
  shows "(rem_id = local_id s \<longrightarrow>
            Inquired response s =
              s\<lparr>edges := (edges s)(e := (edges s e)\<lparr>is_closed := True\<rparr>),
                trace := trace s @
                  [Log Debug ''Attempting to connect to ourself'',
                   SendNotification [''method'' \<mapsto> QString ''CM::Close''] (SEdge e),
                   EdgeClose e ''Attempting to connect to ourself'',
                   Emit (ConnectionAttemptFailure (remote_address (edges s e))
                           ''Attempting to connect to ourself'')]\<rparr>) \<and>
         (rem_id \<noteq> local_id s \<and> ct_GetConnection rem_id (con_tab s) = Some old \<longrightarrow>
            Inquired response s =
              s\<lparr>edges := (edges s)(e := (edges s e)\<lparr>is_closed := True\<rparr>),
                trace := trace s @
                  [Log Warning ''Already have a connection to: '',
                   SendNotification [''method'' \<mapsto> QString ''CM::Close''] (SEdge e),
                   EdgeClose e ''Duplicate connection'',
                   Emit (ConnectionAttemptFailure (remote_address (edges s e))
                           ''Duplicate connection'')]\<rparr> \<and>
            ct_GetConnection rem_id (con_tab (Inquired response s)) = Some old)"
  using assms by (simp add: Inquired_def Inquired_with_def prim_defs Let_def)

theorem Inquired_rejects_witness:
  "outbound (edges dialed_A 1) \<and>
   trace (Inquired (peer_msg 1 ''A'') dialed_A) = trace dialed_A @
     [Log Debug ''Attempting to connect to ourself'',
      SendNotification [''method'' \<mapsto> QString ''CM::Close''] (SEdge 1),
      EdgeClose 1 ''Attempting to connect to ourself'',
      Emit (ConnectionAttemptFailure (Address ''mem://'' ''B'') ''Attempting to connect to ourself'')] \<and>
   outbound (edges (HandleNewEdge 2 connected_A) 2) \<and>
   ct_GetConnection ''B'' (con_tab (HandleNewEdge 2 connected_A)) = Some con_B \<and>
   trace (Inquired (peer_msg 2 ''B'') (HandleNewEdge 2 connected_A)) =
     trace (HandleNewEdge 2 connected_A) @
     [Log Warning ''Already have a connection to: '',
      SendNotification [''method'' \<mapsto> QString ''CM::Close''] (SEdge 2),
      EdgeClose 2 ''Duplicate connection'',
      Emit (ConnectionAttemptFailure (Address ''mem://'' ''B'') ''Duplicate connection'')] \<and>
   ct_GetConnection ''B'' (con_tab (Inquired (peer_msg 2 ''B'') (HandleNewEdge 2 connected_A))) =
     Some con_B"
proof -
  have a: "rq_from (peer_msg 1 ''A'') = SEdge 1" "outbound (edges dialed_A 1)"
    "toByteArray (rq_message (peer_msg 1 ''A'') ''peer_id'') = ''A''" "''A'' \<noteq> []"
    "''A'' = local_id dialed_A" "remote_address (edges dialed_A 1) = Address ''mem://'' ''B''"
    by (simp_all add: all_defs)
  let ?s = "HandleNewEdge 2 connected_A"
  have b: "rq_from (peer_msg 2 ''B'') = SEdge 2" "outbound (edges ?s 2)"
    "toByteArray (rq_message (peer_msg 2 ''B'') ''peer_id'') = ''B''" "''B'' \<noteq> []"
    "''B'' \<noteq> local_id ?s" "ct_GetConnection ''B'' (con_tab ?s) = Some con_B"
    "remote_address (edges ?s 2) = Address ''mem://'' ''B''"
    by (simp_all add: all_defs)
  show ?thesis
    using Inquired_rejects [OF a(1-4), of con_B] Inquired_rejects [OF b(1-4), of con_B] a b
    by simp
qed

subsection \<open>Shutdown\<close>















subsection \<open>The Disconnected event over runs\<close>

































text \<open>
  The bound rests on the factory's contract: an edge handed over after Disconnect() is
  adopted like any other, and its Closed report emits Disconnected a second time.
\<close>

lemma late_edge_emits_twice:
  "\<not> admissible [] [] False [Call_Disconnect, Sig_NewEdge 3, Sig_Closed 3 ''gone''] \<and>
   count_list (trace (run [Call_Disconnect, Sig_NewEdge 3, Sig_Closed 3 ''gone'']
                        (ConnectionManager ''A'' heap0))) (Emit Disconnected) = 2"
  by (simp add: run_def Disconnect_def close_if_open_def HandleEdgeClose_def all_defs)

subsection \<open>Inbound handshake\<close>

text \<open>
  C5. On an edge that InTable holds: CM::Inquire is answered with the local id; CM::Connect
  with a non-empty remote id first calls disconnect() on the InTable connection of that id,
  if there is one, then creates the connection, adds it to InTable and emits
  NewConnection(con, false).
\<close>

theorem inbound_promotion:
  assumes "rq_from n = SEdge e"
      and "e \<in> set (ct_GetEdges (rem_con_tab s))"
      and "toByteArray (rq_message n ''peer_id'') = rem_id"
      and "rem_id \<noteq> []"
  shows "Inquire request s =
           s\<lparr>trace := trace s @ [Respond request [''peer_id'' \<mapsto> QByteArray (local_id s)]]\<rparr> \<and>
         (\<exists>s1 s6 con.
            s1 = (case ct_GetConnection rem_id (rem_con_tab s) of
                    None \<Rightarrow> s | Some old_con \<Rightarrow> con_Disconnect old_con s) \<and>
            (\<forall>old_con. ct_GetConnection rem_id (rem_con_tab s) = Some old_con \<longrightarrow>
               trace s1 = trace s @
                 [SendNotification [''method'' \<mapsto> QString ''CM::Disconnect''] (SConnection old_con),
                  Log Debug ''Handle disconnect on: '',
                  EdgeClose (c_edge old_con) ''Local disconnect request'']) \<and>
            con = \<lparr>c_id = next_con s, c_edge = e, c_local_id = local_id s, c_remote_id = rem_id\<rparr> \<and>
            Connect n s = emit (NewConnection con False) s6 \<and>
            trace s6 = trace s1 @
              [Log Debug '': Handle new connection from '',
               Subscribe (SubCalledDisconnect con), Subscribe (SubDisconnected con)] \<and>
            rem_con_tab s6 = ct_AddConnection con (rem_con_tab s1) \<and>
            ct_GetConnection rem_id (rem_con_tab s6) = Some con \<and>
            ct_Contains con (rem_con_tab s6) \<and>
            rem_con_tab (Connect n s) = rem_con_tab s6 \<and>
            trace (Connect n s) = trace s6 @ [Emit (NewConnection con False)])"
proof -
  define s1 where
    "s1 = (case ct_GetConnection rem_id (rem_con_tab s) of
             None \<Rightarrow> s | Some old_con \<Rightarrow> con_Disconnect old_con s)"
  define con where
    "con = \<lparr>c_id = next_con s, c_edge = e, c_local_id = local_id s, c_remote_id = rem_id\<rparr>"
  define s6 where
    "s6 = s1\<lparr>next_con := Suc (next_con s1),
              rem_con_tab := ct_AddConnection con (rem_con_tab s1),
              trace := trace s1 @
                [Log Debug '': Handle new connection from '',
                 Subscribe (SubCalledDisconnect con), Subscribe (SubDisconnected con)]\<rparr>"
  have rid: "c_remote_id con = rem_id"
    by (simp add: con_def)
  have run: "Connect n s = emit (NewConnection con False) s6"
    unfolding s6_def by (rule Connect_success [OF assms s1_def con_def])
  have tab: "rem_con_tab s6 = ct_AddConnection con (rem_con_tab s1)"
    by (simp add: s6_def)
  have old: "\<forall>old_con. ct_GetConnection rem_id (rem_con_tab s) = Some old_con \<longrightarrow>
               trace s1 = trace s @
                 [SendNotification [''method'' \<mapsto> QString ''CM::Disconnect''] (SConnection old_con),
                  Log Debug ''Handle disconnect on: '',
                  EdgeClose (c_edge old_con) ''Local disconnect request'']"
    by (simp add: s1_def con_Disconnect_def HandleDisconnect_trace)
  have "ct_GetConnection rem_id (rem_con_tab s6) = Some con" "ct_Contains con (rem_con_tab s6)"
    using ct_AddConnection_lookup [of con "rem_con_tab s1"] by (simp_all add: tab rid)
  moreover have "trace s6 = trace s1 @
      [Log Debug '': Handle new connection from '',
       Subscribe (SubCalledDisconnect con), Subscribe (SubDisconnected con)]"
    by (simp add: s6_def)
  moreover have "rem_con_tab (Connect n s) = rem_con_tab s6"
    "trace (Connect n s) = trace s6 @ [Emit (NewConnection con False)]"
    by (simp_all add: run emit_def act_def)
  moreover have "Inquire request s =
      s\<lparr>trace := trace s @ [Respond request [''peer_id'' \<mapsto> QByteArray (local_id s)]]\<rparr>"
    by (simp add: Inquire_def act_def)
  ultimately show ?thesis
    using run tab con_def s1_def old by blast
qed

theorem inbound_promotion_witness:
  "rq_from (peer_msg 3 ''C'') = SEdge 3 \<and> 3 \<in> set (ct_GetEdges (rem_con_tab inbound_A)) \<and>
   toByteArray (rq_message (peer_msg 3 ''C'') ''peer_id'') = ''C'' \<and>
   ct_GetConnection ''C'' (rem_con_tab inbound_A) = Some con_C \<and>
   Inquire (peer_msg 3 ''C'') inbound_A =
     inbound_A\<lparr>trace := trace inbound_A @
       [Respond (peer_msg 3 ''C'') [''peer_id'' \<mapsto> QByteArray ''A'']]\<rparr> \<and>
   ct_GetConnection ''C'' (rem_con_tab (Connect (peer_msg 3 ''C'') inbound_A)) =
     Some (con_C\<lparr>c_id := 1\<rparr>) \<and>
   trace (Connect (peer_msg 3 ''C'') inbound_A) = trace inbound_A @
     [SendNotification [''method'' \<mapsto> QString ''CM::Disconnect''] (SConnection con_C),
      Log Debug ''Handle disconnect on: '',
      EdgeClose 3 ''Local disconnect request'',
      Log Debug '': Handle new connection from '',
      Subscribe (SubCalledDisconnect (con_C\<lparr>c_id := 1\<rparr>)),
      Subscribe (SubDisconnected (con_C\<lparr>c_id := 1\<rparr>)),
      Emit (NewConnection (con_C\<lparr>c_id := 1\<rparr>) False)]"
proof -
  have h: "rq_from (peer_msg 3 ''C'') = SEdge 3" "3 \<in> set (ct_GetEdges (rem_con_tab inbound_A))"
    "toByteArray (rq_message (peer_msg 3 ''C'') ''peer_id'') = ''C''" "''C'' \<noteq> []"
    by (simp_all add: all_defs)
  have v: "ct_GetConnection ''C'' (rem_con_tab inbound_A) = Some con_C"
    "next_con inbound_A = 1" "local_id inbound_A = ''A''" "c_edge con_C = 3"
    by (simp_all add: all_defs)
  from inbound_promotion [OF h, of "peer_msg 3 ''C''"] show ?thesis
    using h by (auto simp: v con_C_def)
qed

subsection \<open>Adoption of an edge\<close>

text \<open>
  C6. HandleNewEdge sets the edge's sink to the RPC handler and subscribes to Closed; an
  outbound edge goes into OutTable and CM::Inquire with the local id is sent over it, an
  inbound edge goes into InTable and nothing is sent.
\<close>

theorem HandleNewEdge_adopts:
  "sink (edges (HandleNewEdge e s) e) = Some RpcSink \<and>
   (outbound (edges s e) \<longrightarrow>
      con_tab (HandleNewEdge e s) = ct_AddEdge e (con_tab s) \<and>
      ct_GetEdge e (con_tab (HandleNewEdge e s)) = Some e \<and>
      rem_con_tab (HandleNewEdge e s) = rem_con_tab s \<and>
      trace (HandleNewEdge e s) = trace s @
        [Subscribe (SubClosed e),
         SendRequest [''method'' \<mapsto> QString ''CM::Inquire'', ''peer_id'' \<mapsto> QByteArray (local_id s)]
           (SEdge e)]) \<and>
   (\<not> outbound (edges s e) \<longrightarrow>
      rem_con_tab (HandleNewEdge e s) = ct_AddEdge e (rem_con_tab s) \<and>
      ct_GetEdge e (rem_con_tab (HandleNewEdge e s)) = Some e \<and>
      con_tab (HandleNewEdge e s) = con_tab s \<and>
      trace (HandleNewEdge e s) = trace s @ [Subscribe (SubClosed e)])"
  by (simp add: HandleNewEdge_def prim_defs Let_def ct_AddEdge_def ct_GetEdge_def)

theorem HandleNewEdge_adopts_witness:
  "outbound (edges node_A 1) \<and>
   trace (HandleNewEdge 1 node_A) = trace node_A @
     [Subscribe (SubClosed 1),
      SendRequest [''method'' \<mapsto> QString ''CM::Inquire'', ''peer_id'' \<mapsto> QByteArray ''A''] (SEdge 1)] \<and>
   ct_edges (con_tab (HandleNewEdge 1 node_A)) = [1] \<and>
   \<not> outbound (edges node_A 3) \<and>
   trace (HandleNewEdge 3 node_A) = trace node_A @ [Subscribe (SubClosed 3)] \<and>
   ct_edges (rem_con_tab (HandleNewEdge 3 node_A)) = [3]"
  using HandleNewEdge_adopts [of 1 node_A] HandleNewEdge_adopts [of 3 node_A]
  by (simp add: scenario_defs prim_defs table_defs)

subsection \<open>The public methods after shutdown\<close>

text \<open>
  C7. After Disconnect, ConnectTo and AddEdgeListener only log a warning. Before it,
  ConnectTo emits ConnectionAttemptFailure(addr, "No EdgeListener to handle request")
  exactly when no registered listener claims the address, and otherwise only asks the
  claiming listener to dial.
\<close>

theorem api_after_shutdown:
  "(closed s \<longrightarrow>
      ConnectTo addr s =
        s\<lparr>trace := trace s @ [Log Warning ''Attempting to Connect to a remote node after calling Disconnect.'']\<rparr> \<and>
      AddEdgeListener el s =
        s\<lparr>trace := trace s @ [Log Warning ''Attempting to add an EdgeListener after calling Disconnect.'']\<rparr>) \<and>
   (\<not> closed s \<longrightarrow>
      (if \<exists>l \<in> set (ef_listeners (edge_factory s)). el_scheme l = scheme addr
       then \<exists>l \<in> set (ef_listeners (edge_factory s)). el_scheme l = scheme addr \<and>
              ConnectTo addr s = s\<lparr>trace := trace s @ [Dial l addr]\<rparr>
       else ConnectTo addr s =
              s\<lparr>trace := trace s @
                [Emit (ConnectionAttemptFailure addr ''No EdgeListener to handle request'')]\<rparr>))"
proof (cases "find (\<lambda>l. el_scheme l = scheme addr) (ef_listeners (edge_factory s))")
  case None
  then have r: "ef_CreateEdgeTo addr s = (False, s)"
    by (simp add: ef_CreateEdgeTo_def)
  from None have "\<not> (\<exists>l \<in> set (ef_listeners (edge_factory s)). el_scheme l = scheme addr)"
    by (simp add: find_None_iff)
  with r show ?thesis
    by (simp add: ConnectTo_def AddEdgeListener_def prim_defs)
next
  case (Some l)
  then have r: "ef_CreateEdgeTo addr s = (True, act (Dial l addr) s)"
    by (simp add: ef_CreateEdgeTo_def)
  from Some have "l \<in> set (ef_listeners (edge_factory s)) \<and> el_scheme l = scheme addr"
    by (auto simp: find_Some_iff)
  with r show ?thesis
    by (auto simp: ConnectTo_def AddEdgeListener_def prim_defs)
qed

theorem api_after_shutdown_witness:
  "closed (Disconnect node_A) \<and>
   trace (ConnectTo (Address ''mem://'' ''B'') (Disconnect node_A)) = trace (Disconnect node_A) @
     [Log Warning ''Attempting to Connect to a remote node after calling Disconnect.''] \<and>
   \<not> closed node_A \<and>
   ConnectTo (Address ''mem://'' ''B'') node_A =
     node_A\<lparr>trace := trace node_A @ [Dial (EdgeListener ''mem://'') (Address ''mem://'' ''B'')]\<rparr> \<and>
   ConnectTo (Address ''tcp://'' ''B'') node_A =
     node_A\<lparr>trace := trace node_A @
       [Emit (ConnectionAttemptFailure (Address ''tcp://'' ''B'') ''No EdgeListener to handle request'')]\<rparr>"
  using api_after_shutdown [of "Disconnect node_A" "Address ''mem://'' ''B''"]
    api_after_shutdown [of node_A "Address ''mem://'' ''B''"]
    api_after_shutdown [of node_A "Address ''tcp://'' ''B''"]
  by (simp add: scenario_defs prim_defs table_defs Disconnect_def)

subsection \<open>Malformed handshake messages\<close>

text \<open>
  C8. A malformed handshake message (sender not an edge, an Inquired over an inbound edge,
  a missing or empty peer id) changes nothing but the log: one warning is appended to the
  trace.
\<close>

theorem malformed_handshake_dropped:
  "((\<forall>e. rq_from r \<noteq> SEdge e) \<longrightarrow>
      Inquired r s = s\<lparr>trace := trace s @ [Log Warning ''Received an inquired from a non-Edge: '']\<rparr> \<and>
      Connect r s = s\<lparr>trace := trace s @ [Log Warning ''Connection attempt not from an Edge: '']\<rparr>) \<and>
   (rq_from r = SEdge e \<and> \<not> outbound (edges s e) \<longrightarrow>
      Inquired r s =
        s\<lparr>trace := trace s @ [Log Warning ''We would never make an inquire call on an incoming edge: '']\<rparr>) \<and>
   (rq_from r = SEdge e \<and> outbound (edges s e) \<and> toByteArray (rq_message r ''peer_id'') = [] \<longrightarrow>
      Inquired r s = s\<lparr>trace := trace s @ [Log Warning ''Invalid ConnectionEstablished, no id'']\<rparr>) \<and>
   (rq_from r = SEdge e \<and> toByteArray (rq_message r ''peer_id'') = [] \<longrightarrow>
      Connect r s = s\<lparr>trace := trace s @ [Log Warning ''Invalid ConnectionEstablished, no id'']\<rparr>)"
  by (cases "rq_from r") (simp_all add: Inquired_def Inquired_with_def Connect_def prim_defs)

theorem malformed_handshake_dropped_witness:
  "Inquired \<lparr>rq_from = SOther ''x'', rq_message = [''peer_id'' \<mapsto> QByteArray ''B'']\<rparr> dialed_A =
     dialed_A\<lparr>trace := trace dialed_A @ [Log Warning ''Received an inquired from a non-Edge: '']\<rparr> \<and>
   \<not> outbound (edges dialed_A 3) \<and>
   Inquired (peer_msg 3 ''B'') dialed_A =
     dialed_A\<lparr>trace := trace dialed_A @
       [Log Warning ''We would never make an inquire call on an incoming edge: '']\<rparr> \<and>
   outbound (edges dialed_A 1) \<and> toByteArray (rq_message (peer_msg 1 []) ''peer_id'') = [] \<and>
   Inquired (peer_msg 1 []) dialed_A =
     dialed_A\<lparr>trace := trace dialed_A @ [Log Warning ''Invalid ConnectionEstablished, no id'']\<rparr> \<and>
   Connect (peer_msg 1 []) dialed_A =
     dialed_A\<lparr>trace := trace dialed_A @ [Log Warning ''Invalid ConnectionEstablished, no id'']\<rparr>"
  using malformed_handshake_dropped
      [where r = "\<lparr>rq_from = SOther ''x'', rq_message = [''peer_id'' \<mapsto> QByteArray ''B'']\<rparr>"
         and s = dialed_A and e = 0]
    malformed_handshake_dropped [where r = "peer_msg 3 ''B''" and e = 3 and s = dialed_A]
    malformed_handshake_dropped [where r = "peer_msg 1 []" and e = 1 and s = dialed_A]
  by (simp add: scenario_defs prim_defs table_defs)

subsection \<open>The handshake after shutdown\<close>

text \<open>
  C9. Inquired and Connect never read the closed flag: they commute with any change of it.
  With closed already true, a well-formed Inquired over an outbound edge of OutTable, and a
  well-formed Connect over an edge of InTable, still add the new connection to the table
  and emit NewConnection.
\<close>

theorem handshake_ignores_closed:
  "Inquired r (s\<lparr>closed := b\<rparr>) = (Inquired r s)\<lparr>closed := b\<rparr> \<and>
   Connect r (s\<lparr>closed := b\<rparr>) = (Connect r s)\<lparr>closed := b\<rparr> \<and>
   (closed s \<and> rq_from r = SEdge e \<and> toByteArray (rq_message r ''peer_id'') = rem_id \<and> rem_id \<noteq> [] \<longrightarrow>
      (let con = \<lparr>c_id = next_con s, c_edge = e, c_local_id = local_id s, c_remote_id = rem_id\<rparr>
       in (outbound (edges s e) \<and> e \<in> set (ct_GetEdges (con_tab s)) \<and> rem_id \<noteq> local_id s \<and>
           ct_GetConnection rem_id (con_tab s) = None \<longrightarrow>
             closed (Inquired r s) \<and>
             ct_GetConnection rem_id (con_tab (Inquired r s)) = Some con \<and>
             last (trace (Inquired r s)) = Emit (NewConnection con True)) \<and>
          (e \<in> set (ct_GetEdges (rem_con_tab s)) \<longrightarrow>
             closed (Connect r s) \<and>
             ct_GetConnection rem_id (rem_con_tab (Connect r s)) = Some con \<and>
             last (trace (Connect r s)) = Emit (NewConnection con False))))"
proof -
  have hd: "HandleDisconnect c (s\<lparr>closed := b\<rparr>) = (HandleDisconnect c s)\<lparr>closed := b\<rparr>" for c
    by (simp add: HandleDisconnect_def prim_defs Let_def)
  have i: "Inquired r (s\<lparr>closed := b\<rparr>) = (Inquired r s)\<lparr>closed := b\<rparr>"
    by (simp add: Inquired_def Inquired_with_def prim_defs Let_def new_Connection_def split: sender.splits option.splits)
  have c: "Connect r (s\<lparr>closed := b\<rparr>) = (Connect r s)\<lparr>closed := b\<rparr>"
    by (simp add: Connect_def prim_defs Let_def new_Connection_def con_Disconnect_def hd
        split: sender.splits option.splits)
  have "closed (Inquired r s) \<and>
        ct_GetConnection rem_id (con_tab (Inquired r s)) =
          Some \<lparr>c_id = next_con s, c_edge = e, c_local_id = local_id s, c_remote_id = rem_id\<rparr> \<and>
        last (trace (Inquired r s)) =
          Emit (NewConnection \<lparr>c_id = next_con s, c_edge = e, c_local_id = local_id s,
                                c_remote_id = rem_id\<rparr> True)"
    if "closed s" "rq_from r = SEdge e" "toByteArray (rq_message r ''peer_id'') = rem_id"
      "rem_id \<noteq> []" "outbound (edges s e)" "e \<in> set (ct_GetEdges (con_tab s))"
      "rem_id \<noteq> local_id s" "ct_GetConnection rem_id (con_tab s) = None"
    using Inquired_success [OF that(2,5,6,3,4,7,8) refl] that(1)
      ct_AddConnection_lookup(1)
        [of "\<lparr>c_id = next_con s, c_edge = e, c_local_id = local_id s, c_remote_id = rem_id\<rparr>" "con_tab s"]
    by (simp add: emit_def act_def)
  moreover have "closed (Connect r s) \<and>
        ct_GetConnection rem_id (rem_con_tab (Connect r s)) =
          Some \<lparr>c_id = next_con s, c_edge = e, c_local_id = local_id s, c_remote_id = rem_id\<rparr> \<and>
        last (trace (Connect r s)) =
          Emit (NewConnection \<lparr>c_id = next_con s, c_edge = e, c_local_id = local_id s,
                                c_remote_id = rem_id\<rparr> False)"
    if "closed s" "rq_from r = SEdge e" "toByteArray (rq_message r ''peer_id'') = rem_id"
      "rem_id \<noteq> []" "e \<in> set (ct_GetEdges (rem_con_tab s))"
  proof -
    let ?s1 = "case ct_GetConnection rem_id (rem_con_tab s) of
                 None \<Rightarrow> s | Some old_con \<Rightarrow> con_Disconnect old_con s"
    have "closed ?s1"
      using that(1) by (simp add: con_Disconnect_def HandleDisconnect_frame split: option.splits)
    then show ?thesis
      using Connect_success [OF that(2,5,3,4) refl refl]
        ct_AddConnection_lookup(1)
          [of "\<lparr>c_id = next_con s, c_edge = e, c_local_id = local_id s, c_remote_id = rem_id\<rparr>"
              "rem_con_tab ?s1"]
      by (simp add: emit_def act_def)
  qed
  ultimately show ?thesis
    using i c by (simp add: Let_def)
qed

theorem handshake_ignores_closed_witness:
  "closed closing_A \<and> outbound (edges closing_A 1) \<and>
   1 \<in> set (ct_GetEdges (con_tab closing_A)) \<and> 3 \<in> set (ct_GetEdges (rem_con_tab closing_A)) \<and>
   ct_GetConnection ''B'' (con_tab closing_A) = None \<and>
   ct_GetConnection ''B'' (con_tab (Inquired (peer_msg 1 ''B'') closing_A)) = Some con_B \<and>
   last (trace (Inquired (peer_msg 1 ''B'') closing_A)) = Emit (NewConnection con_B True) \<and>
   ct_GetConnection ''C'' (rem_con_tab (Connect (peer_msg 3 ''C'') closing_A)) = Some con_C \<and>
   last (trace (Connect (peer_msg 3 ''C'') closing_A)) = Emit (NewConnection con_C False)"
proof -
  have h: "closed closing_A" "outbound (edges closing_A 1)"
    "1 \<in> set (ct_GetEdges (con_tab closing_A))" "3 \<in> set (ct_GetEdges (rem_con_tab closing_A))"
    "ct_GetConnection ''B'' (con_tab closing_A) = None"
    "next_con closing_A = 0" "local_id closing_A = ''A''"
    by (simp_all add: closing_A_def Disconnect_def close_if_open_def all_defs)
  have m: "rq_from (peer_msg e p) = SEdge e" "toByteArray (rq_message (peer_msg e p) ''peer_id'') = p"
    for e p
    by (simp_all add: peer_msg_def toByteArray_def)
  show ?thesis
    using handshake_ignores_closed [where s = closing_A and r = "peer_msg 1 ''B''" and e = 1
        and rem_id = "''B''"]
      handshake_ignores_closed [where s = closing_A and r = "peer_msg 3 ''C''" and e = 3
        and rem_id = "''C''"] h
    by (simp add: m con_B_def con_C_def Let_def)
qed

subsection \<open>Teardown routing\<close>

text \<open>
  C10. The handler of a CM::Disconnect notification marks the connection in InTable when
  InTable contains it and in OutTable otherwise, whether or not OutTable contains it, and
  then closes the connection's edge with "Remote disconnect". HandleDisconnect prefers
  OutTable and falls back to InTable. HandleDisconnected picks the table by the outbound
  flag of the connection's edge.
\<close>

theorem disconnect_routing:
  "(rq_from n = SConnection con \<longrightarrow>
      (ct_Contains con (rem_con_tab s) \<longrightarrow>
         rem_con_tab (Disconnect_RpcRequest n s) = ct_Disconnect con (rem_con_tab s) \<and>
         con_tab (Disconnect_RpcRequest n s) = con_tab s) \<and>
      (\<not> ct_Contains con (rem_con_tab s) \<longrightarrow>
         con_tab (Disconnect_RpcRequest n s) = ct_Disconnect con (con_tab s) \<and>
         rem_con_tab (Disconnect_RpcRequest n s) = rem_con_tab s) \<and>
      is_closed (edges (Disconnect_RpcRequest n s) (c_edge con)) \<and>
      trace (Disconnect_RpcRequest n s) = trace s @
        [Log Debug ''Received disconnect for: '', EdgeClose (c_edge con) ''Remote disconnect'']) \<and>
   (ct_Contains con (con_tab s) \<longrightarrow>
      con_tab (HandleDisconnect con s) = ct_Disconnect con (con_tab s) \<and>
      rem_con_tab (HandleDisconnect con s) = rem_con_tab s) \<and>
   (\<not> ct_Contains con (con_tab s) \<longrightarrow>
      rem_con_tab (HandleDisconnect con s) = ct_Disconnect con (rem_con_tab s) \<and>
      con_tab (HandleDisconnect con s) = con_tab s) \<and>
   (outbound (edges s (c_edge con)) \<longrightarrow>
      con_tab (HandleDisconnected con reason s) = ct_RemoveConnection con (con_tab s) \<and>
      rem_con_tab (HandleDisconnected con reason s) = rem_con_tab s) \<and>
   (\<not> outbound (edges s (c_edge con)) \<longrightarrow>
      rem_con_tab (HandleDisconnected con reason s) = ct_RemoveConnection con (rem_con_tab s) \<and>
      con_tab (HandleDisconnected con reason s) = con_tab s)"
  by (simp add: Disconnect_RpcRequest_def HandleDisconnect_def HandleDisconnected_def prim_defs Let_def)

theorem disconnect_routing_witness:
  "ct_Contains con_C (rem_con_tab inbound_A) \<and>
   ct_GetConnection ''C''
     (rem_con_tab (Disconnect_RpcRequest \<lparr>rq_from = SConnection con_C, rq_message = Map.empty\<rparr> inbound_A))
     = None \<and>
   \<not> ct_Contains con_B (rem_con_tab inbound_A) \<and> \<not> ct_Contains con_B (con_tab inbound_A) \<and>
   con_tab (Disconnect_RpcRequest \<lparr>rq_from = SConnection con_B, rq_message = Map.empty\<rparr> inbound_A)
     = con_tab inbound_A \<and>
   trace (Disconnect_RpcRequest \<lparr>rq_from = SConnection con_B, rq_message = Map.empty\<rparr> inbound_A)
     = trace inbound_A @ [Log Debug ''Received disconnect for: '', EdgeClose 1 ''Remote disconnect''] \<and>
   ct_Contains con_B (con_tab connected_A) \<and>
   ct_GetConnection ''B'' (con_tab (HandleDisconnect con_B connected_A)) = None \<and>
   rem_con_tab (HandleDisconnect con_C connected_A) = rem_con_tab connected_A \<and>
   outbound (edges connected_A (c_edge con_B)) \<and>
   \<not> ct_Contains con_B (con_tab (HandleDisconnected con_B ''gone'' connected_A)) \<and>
   \<not> outbound (edges inbound_A (c_edge con_C)) \<and>
   \<not> ct_Contains con_C (rem_con_tab (HandleDisconnected con_C ''gone'' inbound_A))"
proof -
  have h: "ct_Contains con_C (rem_con_tab inbound_A)" "\<not> ct_Contains con_B (rem_con_tab inbound_A)"
    "\<not> ct_Contains con_B (con_tab inbound_A)" "ct_Contains con_B (con_tab connected_A)"
    "\<not> ct_Contains con_C (con_tab connected_A)"
    "outbound (edges connected_A (c_edge con_B))" "\<not> outbound (edges inbound_A (c_edge con_C))"
    "c_edge con_B = 1"
    by (simp_all add: all_defs)
  have t: "ct_GetConnection ''C'' (ct_Disconnect con_C (rem_con_tab inbound_A)) = None"
    "ct_Disconnect con_B (con_tab inbound_A) = con_tab inbound_A"
    "ct_GetConnection ''B'' (ct_Disconnect con_B (con_tab connected_A)) = None"
    "ct_Disconnect con_C (rem_con_tab connected_A) = rem_con_tab connected_A"
    "\<not> ct_Contains con_B (ct_RemoveConnection con_B (con_tab connected_A))"
    "\<not> ct_Contains con_C (ct_RemoveConnection con_C (rem_con_tab inbound_A))"
    by (simp_all add: all_defs)
  show ?thesis
    using disconnect_routing [where n = "\<lparr>rq_from = SConnection con_C, rq_message = Map.empty\<rparr>"
        and con = con_C and s = inbound_A and reason = "''gone''"]
      disconnect_routing [where n = "\<lparr>rq_from = SConnection con_B, rq_message = Map.empty\<rparr>"
        and con = con_B and s = inbound_A]
      disconnect_routing [where con = con_B and s = connected_A and reason = "''gone''"]
      disconnect_routing [where con = con_C and s = connected_A] h t
    by simp
qed

end
